theory Spec2Isabelle
  imports Main "HOL-Library.Word" "HOL-Library.Sublist"
begin

section \<open>Strings and arrays of the JavaScript runtime\<close>

text \<open>
  A JavaScript string is a sequence of 16-bit code units. The literals of
  \<^verbatim>\<open>inject-cordova-index.js\<close> are ASCII; \<open>js\<close> turns an Isabelle literal into
  the code units it denotes.
\<close>

type_synonym unit16 = "16 word"
type_synonym jsstring = "unit16 list"

definition js :: "string \<Rightarrow> jsstring" where
  "js s = map of_char s"

text \<open>
  \<^verbatim>\<open>Array.prototype.join(sep)\<close> on an array of strings: the elements with the
  separator between each two of them, the empty string for the empty array.
\<close>

fun join :: "jsstring \<Rightarrow> jsstring list \<Rightarrow> jsstring" where
  "join sep [] = []"
| "join sep [x] = x"
| "join sep (x # y # ys) = x @ sep @ join sep (y # ys)"

text \<open>A parameter with a default value: \<open>None\<close> is \<^verbatim>\<open>undefined\<close> (argument omitted).\<close>

definition dflt :: "'a \<Rightarrow> 'a option \<Rightarrow> 'a" where
  "dflt d x = (case x of None \<Rightarrow> d | Some v \<Rightarrow> v)"

section \<open>The Content-Security-Policy meta tag\<close>

definition DEFAULT_SOURCE :: jsstring where
  "DEFAULT_SOURCE = js ''index.html''"

text \<open>
  The object literal \<^verbatim>\<open>cspRules\<close> of \<^verbatim>\<open>createMetaCsp\<close>. Its keys are strings that
  are not array indices, so \<^verbatim>\<open>Object.keys\<close> lists them in the order they are
  written: the object is an association list.
\<close>

definition cspRules ::
  "jsstring \<Rightarrow> jsstring list \<Rightarrow> jsstring list \<Rightarrow> jsstring list \<Rightarrow> (jsstring \<times> jsstring) list" where
  "cspRules source connectSrc defaultSrc frameSrc =
    (let cspConnectSrc =
           [js ''self:'', if source = DEFAULT_SOURCE then js ''file:'' else source] @ connectSrc;
         cspDefaultSrc =
           [js ''https://www.google-analytics.com'',
            js ''https://www.youtube.com'',
            js ''https://s.ytimg.com''] @ defaultSrc;
         cspFrameSrc = [js ''https://www.youtube.com''] @ frameSrc
     in [(js ''default-src'',
            js '''self' data: gap: https://ssl.gstatic.com 'unsafe-eval' 'unsafe-inline' ''
              @ join (js '' '') cspDefaultSrc),
         (js ''media-src'', js ''data: *''),
         (js ''img-src'', js ''data: blob: *''),
         (js ''font-src'', js ''data: 'self' https://fonts.gstatic.com''),
         (js ''style-src'', js '''self' 'unsafe-inline' https://fonts.googleapis.com''),
         (js ''connect-src'', join (js '' '') cspConnectSrc),
         (js ''frame-src'', join (js '' '') cspFrameSrc),
         (js ''child-src'', join (js '' '') cspFrameSrc)])"

definition createMetaCsp ::
  "jsstring \<Rightarrow> jsstring list option \<Rightarrow> jsstring list option \<Rightarrow> jsstring list option \<Rightarrow> jsstring" where
  \<open>createMetaCsp source connectSrc defaultSrc frameSrc =
    (let rules = cspRules source (dflt [] connectSrc) (dflt [] defaultSrc) (dflt [] frameSrc);
         csp = join (js '';'') (map (\<lambda>(key, rule). key @ js '' '' @ rule) rules)
     in js ''<meta http-equiv="Content-Security-Policy" content="'' @ csp @ js ''"/>'')\<close>

section \<open>Regular expressions\<close>

text \<open>
  The regular expressions of the source use literal characters, the classes \<^verbatim>\<open>.\<close>
  and \<^verbatim>\<open>[\s\S]\<close>, the greedy star on one character or class, and one capturing
  group. \<open>Dot\<close> is every code unit but a line terminator (none of the expressions
  has the \<^verbatim>\<open>s\<close> flag); \<^verbatim>\<open>[\s\S]\<close> is every code unit. \<open>Paren\<close> is a parenthesis of a
  capturing group, opening or closing.
\<close>

datatype cls = Lit unit16 | Dot | Any

definition LineTerminator :: "unit16 \<Rightarrow> bool" where
  "LineTerminator c = (c = 0x000A \<or> c = 0x000D \<or> c = 0x2028 \<or> c = 0x2029)"

fun cls_matches :: "cls \<Rightarrow> unit16 \<Rightarrow> bool" where
  "cls_matches (Lit c) x = (x = c)"
| "cls_matches Dot x = (\<not> LineTerminator x)"
| "cls_matches Any x = True"

datatype rx = One cls | Star cls | Paren

text \<open>
  The backtracking matcher at one start position. A greedy star first takes one
  more character and matches on; when that fails it gives the character back and
  matches the rest of the expression here. The result is the input left after
  the match, with the inputs left at each parenthesis passed.
\<close>

fun m :: "rx list \<Rightarrow> jsstring \<Rightarrow> (jsstring list \<times> jsstring) option" where
  "m [] s = Some ([], s)"
| "m (One c # r) [] = None"
| "m (One c # r) (x # xs) = (if cls_matches c x then m r xs else None)"
| "m (Star c # r) [] = m r []"
| "m (Star c # r) (x # xs) =
     (if cls_matches c x
      then (case m (Star c # r) xs of Some res \<Rightarrow> Some res | None \<Rightarrow> m r (x # xs))
      else m r (x # xs))"
| "m (Paren # r) s = (case m r s of None \<Rightarrow> None | Some (ps, e) \<Rightarrow> Some (s # ps, e))"

text \<open>
  The result of \<^verbatim>\<open>RegExp.prototype.exec\<close>: the text before the match (its length
  is \<^verbatim>\<open>index\<close>), the matched text (element 0), the captures (elements 1, 2, ...)
  and the text after the match.
\<close>

record match =
  before :: jsstring
  matched :: jsstring
  groups :: "jsstring list"
  after :: jsstring

fun caps :: "jsstring list \<Rightarrow> jsstring list" where
  "caps (a # b # ps) = take (length a - length b) a # caps ps"
| "caps ps = []"

text \<open>
  \<^verbatim>\<open>exec\<close> without the \<^verbatim>\<open>g\<close> and \<^verbatim>\<open>y\<close> flags: the match at the leftmost start
  position that has one, the end of the input included.
\<close>

fun exec :: "rx list \<Rightarrow> jsstring \<Rightarrow> jsstring \<Rightarrow> match option" where
  "exec r pre [] =
     (case m r [] of
        Some (ps, e) \<Rightarrow> Some \<lparr>before = pre, matched = [], groups = caps ps, after = e\<rparr>
      | None \<Rightarrow> None)"
| "exec r pre (x # xs) =
     (case m r (x # xs) of
        Some (ps, e) \<Rightarrow>
          Some \<lparr>before = pre, matched = take (length (x # xs) - length e) (x # xs),
                groups = caps ps, after = e\<rparr>
      | None \<Rightarrow> exec r (pre @ [x]) xs)"

definition lit :: "jsstring \<Rightarrow> rx list" where
  "lit s = map (\<lambda>c. One (Lit c)) s"

text \<open>\<^verbatim>\<open>match[1]\<close>, the first capture.\<close>

definition group1 :: "match \<Rightarrow> jsstring" where
  "group1 mt = (case groups mt of [] \<Rightarrow> [] | g # gs \<Rightarrow> g)"

section \<open>Replacing text\<close>

text \<open>
  The replacement text of \<^verbatim>\<open>String.prototype.replace\<close> for an expression with
  no capturing group: \<^verbatim>\<open>$$\<close> is a dollar sign, \<^verbatim>\<open>$&\<close> the matched text, \<^verbatim>\<open>$`\<close>
  the text before the match and \<^verbatim>\<open>$'\<close> the text after it; every other
  character stands for itself (\<^verbatim>\<open>$1\<close> and \<^verbatim>\<open>$<\<close> too, there being no group).
\<close>

fun GetSubstitution :: "jsstring \<Rightarrow> jsstring \<Rightarrow> jsstring \<Rightarrow> jsstring \<Rightarrow> jsstring" where
  "GetSubstitution mat pre post [] = []"
| "GetSubstitution mat pre post [c] = [c]"
| "GetSubstitution mat pre post (c # d # r) =
     (if c = 0x24 \<and> d = 0x24 then 0x24 # GetSubstitution mat pre post r
      else if c = 0x24 \<and> d = 0x26 then mat @ GetSubstitution mat pre post r
      else if c = 0x24 \<and> d = 0x60 then pre @ GetSubstitution mat pre post r
      else if c = 0x24 \<and> d = 0x27 then post @ GetSubstitution mat pre post r
      else c # GetSubstitution mat pre post (d # r))"


text \<open>
  \<^verbatim>\<open>replace(search, replacement)\<close> of gulp-replace on a file held in a buffer,
  as gulp reads files. Each step reads the text of the buffer
  (\<^verbatim>\<open>String(file.contents)\<close>), replaces, and stores the result in a new buffer
  (\<^verbatim>\<open>new Buffer(result)\<close>), encoded as UTF-8. The encoder writes U+FFFD for a
  surrogate that is not part of a pair, so the text the next step reads, and
  the text of the file written, is the result with each such surrogate
  replaced. A document is modelled by the text of its buffer.
\<close>

definition highSurrogate :: "unit16 \<Rightarrow> bool" where
  "highSurrogate c = (0xD800 \<le> c \<and> c \<le> 0xDBFF)"

definition lowSurrogate :: "unit16 \<Rightarrow> bool" where
  "lowSurrogate c = (0xDC00 \<le> c \<and> c \<le> 0xDFFF)"

fun toWellFormed :: "jsstring \<Rightarrow> jsstring" where
  "toWellFormed [] = []"
| "toWellFormed [c] = (if highSurrogate c \<or> lowSurrogate c then [0xFFFD] else [c])"
| "toWellFormed (c # d # r) =
     (if highSurrogate c \<and> lowSurrogate d then c # d # toWellFormed r
      else if highSurrogate c \<or> lowSurrogate c then 0xFFFD # toWellFormed (d # r)
      else c # toWellFormed (d # r))"

text \<open>
  For a regular expression the replacement is
  \<^verbatim>\<open>String(file.contents).replace(search, replacement)\<close>: without the \<^verbatim>\<open>g\<close> flag
  the first match only.
\<close>

definition replace_regexp :: "rx list \<Rightarrow> jsstring \<Rightarrow> jsstring \<Rightarrow> jsstring" where
  "replace_regexp search replacement contents =
     toWellFormed
       (case exec search [] contents of
          None \<Rightarrow> contents
        | Some mt \<Rightarrow>
            before mt @ GetSubstitution (matched mt) (before mt) (after mt) replacement
              @ after mt)"

text \<open>
  For a string it is \<^verbatim>\<open>String(file.contents).split(search).join(replacement)\<close>:
  the text is cut at every occurrence of the string, found from left to right
  without overlap, and the replacement is put between the pieces as it is.
\<close>

function split_from :: "jsstring \<Rightarrow> jsstring \<Rightarrow> jsstring \<Rightarrow> jsstring list" where
  "split_from sep cur [] = [cur]"
| "split_from sep cur (x # xs) =
     (if sep \<noteq> [] \<and> prefix sep (x # xs)
      then cur # split_from sep [] (drop (length sep) (x # xs))
      else split_from sep (cur @ [x]) xs)"
  by pat_completeness auto
termination
  by (relation "measure (\<lambda>(sep, cur, s). length s)") auto

definition split :: "jsstring \<Rightarrow> jsstring \<Rightarrow> jsstring list" where
  "split sep s = (if sep = [] then map (\<lambda>c. [c]) s else split_from sep [] s)"


definition replace_string :: "jsstring \<Rightarrow> jsstring \<Rightarrow> jsstring \<Rightarrow> jsstring" where
  "replace_string search replacement contents =
     toWellFormed (join replacement (split search contents))"

section \<open>The injection file\<close>

text \<open>
  The errors the code can end with: the \<^verbatim>\<open>Error\<close> objects it throws itself, with
  their message; the error of \<^verbatim>\<open>fs.readFileSync\<close> on a path with no file, with
  the path; the \<^verbatim>\<open>ReferenceError\<close> of reading an identifier that is not declared,
  with the identifier.
\<close>

datatype error = Error jsstring | ENOENT jsstring | ReferenceError jsstring

text \<open>The file system: the text of each file that exists, by path.\<close>

type_synonym filesystem = "jsstring \<rightharpoonup> jsstring"

definition readFileSync :: "filesystem \<Rightarrow> jsstring \<Rightarrow> error + jsstring" where
  "readFileSync fs path = (case fs path of None \<Rightarrow> Inl (ENOENT path) | Some text \<Rightarrow> Inr text)"

record fragments =
  headStart :: jsstring
  headEnd :: jsstring
  bodyStart :: jsstring
  bodyEnd :: jsstring

text \<open>The expression \<^verbatim>\<open>/<TAG>([\s\S]*)<\/TAG>/\<close> for a tag name.\<close>

definition tagRx :: "string \<Rightarrow> rx list" where
  "tagRx t = lit (js (''<'' @ t @ ''>'')) @ [Paren, Star Any, Paren] @ lit (js (''</'' @ t @ ''>''))"

definition notFoundMessage :: "jsstring \<Rightarrow> jsstring" where
  "notFoundMessage path = js ''File '' @ path @ js '' not found !''"

definition badFileMessage :: "jsstring \<Rightarrow> jsstring" where
  "badFileMessage path =
     js ''Bad injection file. Required patterns do no match (<head-end>/<body-start>/<body-end> !!!! Please ensure to use a well formatted injextion file (here we use: ''
     @ js [CHR 0x27] @ path @ js [CHR 0x27] @ js '')''"

text \<open>
  \<^verbatim>\<open>extractTextToInject\<close> on the text read. The empty string is the only falsy
  string, and a failed \<^verbatim>\<open>exec\<close> returns \<^verbatim>\<open>null\<close>.
\<close>

definition extractText :: "jsstring \<Rightarrow> jsstring \<Rightarrow> error + fragments" where
  "extractText injectionFilePath injectionText =
     (if injectionText = [] then Inl (Error (notFoundMessage injectionFilePath))
      else
        (case (exec (tagRx ''head-start'') [] injectionText,
               exec (tagRx ''head-end'') [] injectionText,
               exec (tagRx ''body-start'') [] injectionText,
               exec (tagRx ''body-end'') [] injectionText) of
           (Some hs, Some he, Some bs, Some be) \<Rightarrow>
             Inr \<lparr>headStart = group1 hs, headEnd = group1 he,
                  bodyStart = group1 bs, bodyEnd = group1 be\<rparr>
         | _ \<Rightarrow> Inl (Error (badFileMessage injectionFilePath))))"

definition extractTextToInject :: "filesystem \<Rightarrow> jsstring \<Rightarrow> error + fragments" where
  "extractTextToInject fs injectionFilePath =
     (case readFileSync fs injectionFilePath of
        Inl e \<Rightarrow> Inl e
      | Inr injectionText \<Rightarrow> extractText injectionFilePath injectionText)"

section \<open>The pipelines\<close>

text \<open>
  A step of a pipeline maps the text of a document to the text it passes on;
  the steps run in the order they are piped. The four steps of
  \<^verbatim>\<open>injectDeviceReadyDetection\<close> are named here after the fragment they insert.
  \<^verbatim>\<open>size\<close> reports and changes nothing. The filter sends only the documents
  matching \<^verbatim>\<open>**/*.html\<close> through the steps; the model is of the text of such a
  document.
\<close>

type_synonym transform = "jsstring \<Rightarrow> jsstring"

definition injectHeadStart :: "fragments \<Rightarrow> transform" where
  "injectHeadStart textToInject =
     replace_regexp (lit (js ''<head>'')) (js ''<head>'' @ headStart textToInject)"

definition injectHeadEnd :: "fragments \<Rightarrow> transform" where
  "injectHeadEnd textToInject =
     replace_regexp (lit (js ''</head>'')) (headEnd textToInject @ js ''</head>'')"

definition injectBodyStart :: "fragments \<Rightarrow> transform" where
  "injectBodyStart textToInject =
     replace_regexp (lit (js ''<body>'')) (js ''<body>'' @ bodyStart textToInject)"

definition injectBodyEnd :: "fragments \<Rightarrow> transform" where
  "injectBodyEnd textToInject =
     replace_regexp (lit (js ''</body>'')) (bodyEnd textToInject @ js ''</body>'')"

definition injectSteps :: "fragments \<Rightarrow> transform" where
  "injectSteps textToInject =
     injectBodyEnd textToInject \<circ> injectBodyStart textToInject
     \<circ> injectHeadEnd textToInject \<circ> injectHeadStart textToInject"

text \<open>
  \<^verbatim>\<open>injectDeviceReadyDetection(injectionFilePath)()\<close>: the fragments are extracted
  first, and an error there leaves no pipeline.
\<close>

definition injectDeviceReadyDetection :: "filesystem \<Rightarrow> jsstring \<Rightarrow> error + transform" where
  "injectDeviceReadyDetection fs injectionFilePath =
     (case extractTextToInject fs injectionFilePath of
        Inl e \<Rightarrow> Inl e
      | Inr textToInject \<Rightarrow> Inr (injectSteps textToInject))"

text \<open>The expression \<^verbatim>\<open>/<base\ *href=".*"\ *>/\<close>.\<close>

definition baseRx :: "rx list" where
  \<open>baseRx = lit (js ''<base'') @ [Star (Lit 0x20)] @ lit (js ''href="'') @ [Star Dot]
            @ lit (js ''"'') @ [Star (Lit 0x20)] @ lit (js ''>'')\<close>

definition stripBase :: transform where
  "stripBase = replace_regexp baseRx []"

definition injectScript :: transform where
  \<open>injectScript =
     replace_string (js ''<!-- inject:cordova-script -->'')
       (js ''<script src="cordova.js" async></script>'')\<close>

definition injectCsp :: "jsstring \<Rightarrow> transform" where
  "injectCsp meta = replace_string (js ''<!-- inject:cordova-csp -->'') meta"

text \<open>
  The argument of \<^verbatim>\<open>injectIndex\<close>: an object in which each property may be
  missing.
\<close>

record options =
  connectSrc :: "jsstring list option"
  defaultSrc :: "jsstring list option"
  frameSrc :: "jsstring list option"
  source :: "jsstring option"

text \<open>
  \<^verbatim>\<open>injectIndex\<close> returns a lazypipe: a pipeline still to be built. Building it
  calls the functions piped, in order, and so reads the injection file; the
  result is the transformation of a document, or the error thrown.
  The parameter of \<^verbatim>\<open>injectIndex\<close> is a destructuring pattern whose default value
  is the identifier \<^verbatim>\<open>options\<close>, which nothing declares: with no argument
  (\<open>None\<close>) the default is evaluated.
\<close>

type_synonym lazypipe = "filesystem \<Rightarrow> error + transform"

definition injectIndex :: "jsstring \<Rightarrow> options option \<Rightarrow> error + lazypipe" where
  "injectIndex injectionFilePath arg =
     (case arg of
        None \<Rightarrow> Inl (ReferenceError (js ''options''))
      | Some opts \<Rightarrow>
          Inr (\<lambda>fs.
            case injectDeviceReadyDetection fs injectionFilePath of
              Inl e \<Rightarrow> Inl e
            | Inr inject \<Rightarrow>
                Inr (injectCsp (createMetaCsp (dflt DEFAULT_SOURCE (source opts))
                               (connectSrc opts) (defaultSrc opts) (frameSrc opts))
                     \<circ> injectScript \<circ> stripBase \<circ> inject)))"


section \<open>Texts that a buffer holds\<close>

text \<open>
  The text read from a buffer has no surrogate outside a pair, whatever the
  bytes: \<open>wellFormed\<close> says so of a text. It is the condition under which storing
  a text in a buffer and reading it back gives the same text.
\<close>

fun wellFormed :: "jsstring \<Rightarrow> bool" where
  "wellFormed [] = True"
| "wellFormed [c] = (\<not> highSurrogate c \<and> \<not> lowSurrogate c)"
| "wellFormed (c # d # r) =
     (if highSurrogate c \<and> lowSurrogate d then wellFormed r
      else \<not> highSurrogate c \<and> \<not> lowSurrogate c \<and> wellFormed (d # r))"

section \<open>The matcher on literal text and on the expressions of the source\<close>

lemma m_lit: "m (lit p @ r) s = (if prefix p s then m r (drop (length p) s) else None)"
proof (induction p arbitrary: s)
  case Nil
  show ?case by (simp add: lit_def)
next
  case (Cons c p)
  have IH: "\<And>s. m (lit p @ r) s = (if prefix p s then m r (drop (length p) s) else None)"
    using Cons.IH by simp
  show ?case
  proof (cases s)
    case Nil
    then show ?thesis by (simp add: lit_def)
  next
    case (Cons x xs)
    have "m (lit (c # p) @ r) (x # xs) = (if x = c then m (lit p @ r) xs else None)"
      by (simp add: lit_def)
    then show ?thesis using IH[of xs] Cons by auto
  qed
qed

lemma exec_hit:
  "m r s = Some (ps, e) \<Longrightarrow>
   exec r acc s = Some \<lparr>before = acc, matched = take (length s - length e) s, groups = caps ps, after = e\<rparr>"
  by (cases s) simp_all

lemma exec_skip:
  "(\<And>k. k < length a \<Longrightarrow> m r (drop k (a @ s)) = None) \<Longrightarrow> exec r acc (a @ s) = exec r (acc @ a) s"
proof (induction a arbitrary: acc)
  case Nil
  show ?case by simp
next
  case (Cons x a)
  have h0: "m r ((x # a) @ s) = None" using Cons.prems[of 0] by simp
  have hk: "\<And>k. k < length a \<Longrightarrow> m r (drop k (a @ s)) = None"
    using Cons.prems[of "Suc _"] by simp
  have "exec r acc ((x # a) @ s) = exec r (acc @ [x]) (a @ s)"
    using h0 by simp
  also have "\<dots> = exec r ((acc @ [x]) @ a) s" using Cons.IH[OF hk] by simp
  finally show ?case by simp
qed

lemma exec_none:
  "(\<And>k. k \<le> length s \<Longrightarrow> m r (drop k s) = None) \<Longrightarrow> exec r acc s = None"
proof (induction s arbitrary: acc)
  case Nil
  then show ?case using Nil[of 0] by simp
next
  case (Cons x s)
  have h0: "m r (x # s) = None" using Cons.prems[of 0] by simp
  have hk: "\<And>k. k \<le> length s \<Longrightarrow> m r (drop k s) = None"
    using Cons.prems[of "Suc _"] by simp
  show ?case using h0 Cons.IH[OF hk] by simp
qed

lemma prefix_drop_sublist: "prefix p (drop k s) \<Longrightarrow> sublist p s"
proof -
  assume "prefix p (drop k s)"
  then obtain z where "drop k s = p @ z" by (auto simp: prefix_def)
  then have "s = take k s @ p @ z" by (metis append_take_drop_id)
  then show ?thesis unfolding sublist_def by blast
qed

lemma first_occurrence:
  assumes "\<not> sublist p (a @ butlast p)" and "k < length a"
  shows "\<not> prefix p (drop k (a @ p @ z))"
proof
  assume pre: "prefix p (drop k (a @ p @ z))"
  have pne: "p \<noteq> []" using assms(1) by auto
  define b where "b = drop k a"
  have bne: "b \<noteq> []" using assms(2) by (simp add: b_def)
  have d: "drop k (a @ p @ z) = b @ butlast p @ (last p # z)"
    using assms(2) pne by (simp add: b_def)
  have "length p \<le> length (b @ butlast p)" using bne pne
    by (cases b) simp_all
  with pre d have "prefix p (b @ butlast p)"
    by (metis append.assoc prefix_length_prefix prefixI prefix_order.dual_order.refl append_prefixD prefix_append)
  then have "sublist p (take k a @ b @ butlast p)"
    by (meson sublist_appendI prefix_imp_sublist sublist_append)
  moreover have "take k a @ b @ butlast p = a @ butlast p"
    unfolding b_def by (metis append.assoc append_take_drop_id)
  ultimately show False using assms(1) by simp
qed

lemma star_any_none:
  "\<not> sublist c s \<Longrightarrow> m (Star Any # Paren # lit c) s = None"
proof (induction s)
  case Nil
  then have "c \<noteq> []" by auto
  then show ?case using m_lit[of c "[]" "[]"] by simp
next
  case (Cons x s)
  have np: "\<not> prefix c (x # s)" using Cons.prems by (meson prefix_imp_sublist)
  have ns: "\<not> sublist c s" using Cons.prems by (meson sublist_Cons_right)
  have "m (lit c) (x # s) = None" using m_lit[of c "[]" "x # s"] np by simp
  then show ?case using Cons.IH[OF ns] by simp
qed

lemma star_any_last:
  assumes "c \<noteq> []" and "\<not> sublist c (tl c @ post)"
  shows "m (Star Any # Paren # lit c) (inner @ c @ post) = Some ([c @ post], post)"
proof (induction inner)
  case Nil
  obtain x c' where c: "c = x # c'" using assms(1) by (cases c) auto
  have here: "m (lit c) (c @ post) = Some ([], post)"
    using m_lit[of c "[]" "c @ post"] by simp
  have later: "m (Star Any # Paren # lit c) (c' @ post) = None"
    using star_any_none[of c "c' @ post"] assms(2) c by simp
  show ?case using here later c by simp
next
  case (Cons y inner)
  then show ?case by simp
qed

lemma exec_tagRx:
  assumes "\<not> sublist (js (''<'' @ t @ ''>'')) (a @ butlast (js (''<'' @ t @ ''>'')))"
    and "\<not> sublist (js (''</'' @ t @ ''>'')) (tl (js (''</'' @ t @ ''>'')) @ z)"
  shows "exec (tagRx t) [] (a @ js (''<'' @ t @ ''>'') @ inner @ js (''</'' @ t @ ''>'') @ z)
         = Some \<lparr>before = a,
                   matched = js (''<'' @ t @ ''>'') @ inner @ js (''</'' @ t @ ''>''),
                   groups = [inner], after = z\<rparr>"
proof -
  define op where "op = js (''<'' @ t @ ''>'')"
  define cl where "cl = js (''</'' @ t @ ''>'')"
  define s where "s = op @ inner @ cl @ z"
  have clne: "cl \<noteq> []" by (simp add: cl_def js_def)
  have rx: "tagRx t = lit op @ (Paren # Star Any # Paren # lit cl)"
    by (simp add: tagRx_def op_def cl_def)
  have skip: "\<And>k. k < length a \<Longrightarrow> m (tagRx t) (drop k (a @ s)) = None"
    unfolding rx s_def using first_occurrence[OF assms(1)[folded op_def]]
    by (simp add: m_lit)
  have star: "m (Star Any # Paren # lit cl) (inner @ cl @ z) = Some ([cl @ z], z)"
    using star_any_last[OF clne assms(2)[folded cl_def]] .
  have hit: "m (tagRx t) s = Some ([inner @ cl @ z, cl @ z], z)"
    unfolding rx s_def by (simp add: m_lit star)
  have "exec (tagRx t) [] (a @ s) = exec (tagRx t) a s"
    using exec_skip[of a "tagRx t" s "[]"] skip by simp
  also have "\<dots> = Some \<lparr>before = a, matched = take (length s - length z) s,
                 groups = caps [inner @ cl @ z, cl @ z], after = z\<rparr>"
    using exec_hit[OF hit] .
  also have "take (length s - length z) s = op @ inner @ cl" by (simp add: s_def)
  finally show ?thesis by (simp add: s_def op_def cl_def)
qed

lemma exec_tagRx_none:
  assumes "\<not> (\<exists>a inner z. s = a @ js (''<'' @ t @ ''>'') @ inner @ js (''</'' @ t @ ''>'') @ z)"
  shows "exec (tagRx t) acc s = None"
proof (rule exec_none)
  fix k assume "k \<le> length s"
  define op where "op = js (''<'' @ t @ ''>'')"
  define cl where "cl = js (''</'' @ t @ ''>'')"
  have rx: "tagRx t = lit op @ (Paren # Star Any # Paren # lit cl)"
    by (simp add: tagRx_def op_def cl_def)
  show "m (tagRx t) (drop k s) = None"
  proof (cases "prefix op (drop k s)")
    case False
    then show ?thesis unfolding rx by (simp add: m_lit)
  next
    case True
    then obtain w where w: "drop k s = op @ w" by (auto simp: prefix_def)
    have "\<not> sublist cl w"
    proof
      assume "sublist cl w"
      then obtain i z where "w = i @ cl @ z" by (auto simp: sublist_def)
      then have "s = take k s @ op @ i @ cl @ z" using w by (metis append_take_drop_id)
      then show False using assms unfolding op_def cl_def by blast
    qed
    then have "m (Star Any # Paren # lit cl) w = None" by (rule star_any_none)
    then show ?thesis unfolding rx using w by (simp add: m_lit)
  qed
qed

lemma exec_tagRx_absent:
  assumes "\<not> sublist (js (''<'' @ t @ ''>'')) s \<or> \<not> sublist (js (''</'' @ t @ ''>'')) s"
  shows "exec (tagRx t) [] s = None"
proof (rule exec_tagRx_none)
  show "\<not> (\<exists>a inner z. s = a @ js (''<'' @ t @ ''>'') @ inner @ js (''</'' @ t @ ''>'') @ z)"
  proof
    assume "\<exists>a inner z. s = a @ js (''<'' @ t @ ''>'') @ inner @ js (''</'' @ t @ ''>'') @ z"
    then obtain a inner z where s: "s = a @ js (''<'' @ t @ ''>'') @ inner @ js (''</'' @ t @ ''>'') @ z"
      by blast
    have "sublist (js (''<'' @ t @ ''>'')) s" unfolding s by simp
    moreover have "s = (a @ js (''<'' @ t @ ''>'') @ inner) @ js (''</'' @ t @ ''>'') @ z"
      using s by simp
    then have "sublist (js (''</'' @ t @ ''>'')) s" unfolding sublist_def by blast
    ultimately show False using assms by blast
  qed
qed

lemma sublist_badFileMessage: "sublist path (badFileMessage path)"
  unfolding badFileMessage_def sublist_def by (metis append.assoc)



section \<open>Replacement at the first match and at every occurrence\<close>

lemma toWellFormed_wellFormed: "wellFormed s \<Longrightarrow> toWellFormed s = s"
  by (induction s rule: toWellFormed.induct) (auto split: if_splits)

lemma replace_regexp_lit_absent:
  assumes "\<not> sublist p s"
  shows "replace_regexp (lit p) r s = toWellFormed s"
proof -
  have "\<And>k. m (lit p) (drop k s) = None"
    using m_lit[of p "[]"] prefix_drop_sublist[of p _ s] assms by auto
  then have "exec (lit p) [] s = None" by (intro exec_none) simp
  then show ?thesis by (simp add: replace_regexp_def)
qed




lemma split_from_absent: "\<not> sublist sep s \<Longrightarrow> split_from sep cur s = [cur @ s]"
proof (induction s arbitrary: cur)
  case Nil
  show ?case by simp
next
  case (Cons x s)
  have np: "\<not> prefix sep (x # s)" using Cons.prems by (meson prefix_imp_sublist)
  have ns: "\<not> sublist sep s" using Cons.prems by (meson sublist_Cons_right)
  show ?case using np Cons.IH[OF ns, of "cur @ [x]"] by simp
qed




lemma replace_string_absent: "\<not> sublist p s \<Longrightarrow> replace_string p r s = toWellFormed s"
proof -
  assume a: "\<not> sublist p s"
  then have "p \<noteq> []" by auto
  then show ?thesis using split_from_absent[OF a, of "[]"]
    by (simp add: replace_string_def split_def)
qed










section \<open>Properties of the CSP composer\<close>

lemma join_Cons: "join sep (x # xs) = x @ concat (map (\<lambda>e. sep @ e) xs)"
  by (induction xs arbitrary: x) simp_all

text \<open>
  Claim C2. For every source \<open>src\<close> and every \<open>connectSrc\<close>, \<open>defaultSrc\<close> and
  \<open>frameSrc\<close> (\<open>cs\<close>, \<open>ds\<close>, \<open>fs\<close>, each a list given or omitted, an omitted one
  counting as empty), the composed string is the meta tag around exactly eight
  directives in declaration order, each \<open>name value\<close>, with a semicolon between
  two directives and none after the last. The value of \<open>default-src\<close> is the
  fixed literal prefix, the three baseline origins and then the caller's
  \<open>defaultSrc\<close> entries, each entry preceded by one space, in the caller's order
  and with repetitions kept; \<open>frame-src\<close> and \<open>child-src\<close> carry the same value,
  the baseline origin followed by the caller's \<open>frameSrc\<close> entries.
\<close>

theorem createMetaCsp_serialization:
  \<open>createMetaCsp src cs ds fs =
     js ''<meta http-equiv="Content-Security-Policy" content="default-src 'self' data: gap: https://ssl.gstatic.com 'unsafe-eval' 'unsafe-inline' https://www.google-analytics.com https://www.youtube.com https://s.ytimg.com''
     @ concat (map (\<lambda>e. 0x20 # e) (case ds of None \<Rightarrow> [] | Some l \<Rightarrow> l))
     @ js '';media-src data: *;img-src data: blob: *;font-src data: 'self' https://fonts.gstatic.com;style-src 'self' 'unsafe-inline' https://fonts.googleapis.com;connect-src self: ''
     @ (if src = js ''index.html'' then js ''file:'' else src)
     @ concat (map (\<lambda>e. 0x20 # e) (case cs of None \<Rightarrow> [] | Some l \<Rightarrow> l))
     @ js '';frame-src https://www.youtube.com''
     @ concat (map (\<lambda>e. 0x20 # e) (case fs of None \<Rightarrow> [] | Some l \<Rightarrow> l))
     @ js '';child-src https://www.youtube.com''
     @ concat (map (\<lambda>e. 0x20 # e) (case fs of None \<Rightarrow> [] | Some l \<Rightarrow> l))
     @ js ''"/>''\<close>
  unfolding createMetaCsp_def cspRules_def Let_def DEFAULT_SOURCE_def dflt_def
  by (cases cs; cases ds; cases fs) (simp_all add: join_Cons js_def)

text \<open>
  Claim C3, as the code has it. For every source \<open>src\<close> and \<open>connectSrc\<close> list \<open>cs\<close>
  (given or omitted), the \<open>connect-src\<close> directive of the composed tag has as its
  value \<open>self:\<close>, the token \<open>t\<close> and the entries of \<open>cs\<close> in order, with one space
  between two of them, where \<open>t\<close> is \<open>file:\<close> when the source is \<open>index.html\<close>
  and the source itself otherwise.
\<close>

theorem createMetaCsp_connect_src:
  \<open>(src = js ''index.html'' \<longrightarrow>
      createMetaCsp src cs ds fs =
        js ''<meta http-equiv="Content-Security-Policy" content="default-src 'self' data: gap: https://ssl.gstatic.com 'unsafe-eval' 'unsafe-inline' https://www.google-analytics.com https://www.youtube.com https://s.ytimg.com''
        @ concat (map (\<lambda>e. 0x20 # e) (case ds of None \<Rightarrow> [] | Some l \<Rightarrow> l))
        @ js '';media-src data: *;img-src data: blob: *;font-src data: 'self' https://fonts.gstatic.com;style-src 'self' 'unsafe-inline' https://fonts.googleapis.com''
        @ js '';connect-src self: file:''
        @ concat (map (\<lambda>e. 0x20 # e) (case cs of None \<Rightarrow> [] | Some l \<Rightarrow> l))
        @ js '';frame-src https://www.youtube.com''
        @ concat (map (\<lambda>e. 0x20 # e) (case fs of None \<Rightarrow> [] | Some l \<Rightarrow> l))
        @ js '';child-src https://www.youtube.com''
        @ concat (map (\<lambda>e. 0x20 # e) (case fs of None \<Rightarrow> [] | Some l \<Rightarrow> l))
        @ js ''"/>'')
   \<and> (src \<noteq> js ''index.html'' \<longrightarrow>
      createMetaCsp src cs ds fs =
        js ''<meta http-equiv="Content-Security-Policy" content="default-src 'self' data: gap: https://ssl.gstatic.com 'unsafe-eval' 'unsafe-inline' https://www.google-analytics.com https://www.youtube.com https://s.ytimg.com''
        @ concat (map (\<lambda>e. 0x20 # e) (case ds of None \<Rightarrow> [] | Some l \<Rightarrow> l))
        @ js '';media-src data: *;img-src data: blob: *;font-src data: 'self' https://fonts.gstatic.com;style-src 'self' 'unsafe-inline' https://fonts.googleapis.com''
        @ js '';connect-src self: '' @ src
        @ concat (map (\<lambda>e. 0x20 # e) (case cs of None \<Rightarrow> [] | Some l \<Rightarrow> l))
        @ js '';frame-src https://www.youtube.com''
        @ concat (map (\<lambda>e. 0x20 # e) (case fs of None \<Rightarrow> [] | Some l \<Rightarrow> l))
        @ js '';child-src https://www.youtube.com''
        @ concat (map (\<lambda>e. 0x20 # e) (case fs of None \<Rightarrow> [] | Some l \<Rightarrow> l))
        @ js ''"/>'')\<close>
  unfolding createMetaCsp_def cspRules_def Let_def DEFAULT_SOURCE_def dflt_def
  by (cases cs; cases ds; cases fs) (simp_all add: join_Cons js_def)

text \<open>
  The theorem at the default source and at the origin of a local server, each
  with one entry for \<open>connectSrc\<close> and the other lists omitted.
\<close>

theorem createMetaCsp_connect_src_witness:
  \<open>createMetaCsp (js ''index.html'') (Some [js ''https://api.example.com'']) None None =
     js ''<meta http-equiv="Content-Security-Policy" content="default-src 'self' data: gap: https://ssl.gstatic.com 'unsafe-eval' 'unsafe-inline' https://www.google-analytics.com https://www.youtube.com https://s.ytimg.com;media-src data: *;img-src data: blob: *;font-src data: 'self' https://fonts.gstatic.com;style-src 'self' 'unsafe-inline' https://fonts.googleapis.com;connect-src self: file: https://api.example.com;frame-src https://www.youtube.com;child-src https://www.youtube.com"/>''
   \<and> createMetaCsp (js ''http://localhost:8080'') (Some [js ''https://api.example.com'']) None None =
     js ''<meta http-equiv="Content-Security-Policy" content="default-src 'self' data: gap: https://ssl.gstatic.com 'unsafe-eval' 'unsafe-inline' https://www.google-analytics.com https://www.youtube.com https://s.ytimg.com;media-src data: *;img-src data: blob: *;font-src data: 'self' https://fonts.gstatic.com;style-src 'self' 'unsafe-inline' https://fonts.googleapis.com;connect-src self: http://localhost:8080 https://api.example.com;frame-src https://www.youtube.com;child-src https://www.youtube.com"/>''\<close>
  using createMetaCsp_connect_src
          [of "js ''index.html''" "Some [js ''https://api.example.com'']" None None]
        createMetaCsp_connect_src
          [of "js ''http://localhost:8080''" "Some [js ''https://api.example.com'']" None None]
  by (simp add: js_def)

text \<open>
  The source \<open>file:\<close> is not \<open>index.html\<close>, and the token is \<open>file:\<close> all the same:
  the token being \<open>file:\<close> does not tell that the source is \<open>index.html\<close>.
\<close>

theorem createMetaCsp_source_file:
  \<open>createMetaCsp (js ''file:'') None None None =
     js ''<meta http-equiv="Content-Security-Policy" content="default-src 'self' data: gap: https://ssl.gstatic.com 'unsafe-eval' 'unsafe-inline' https://www.google-analytics.com https://www.youtube.com https://s.ytimg.com;media-src data: *;img-src data: blob: *;font-src data: 'self' https://fonts.gstatic.com;style-src 'self' 'unsafe-inline' https://fonts.googleapis.com;connect-src self: file:;frame-src https://www.youtube.com;child-src https://www.youtube.com"/>''
   \<and> js ''file:'' \<noteq> js ''index.html''\<close>
  by (simp add: createMetaCsp_def cspRules_def DEFAULT_SOURCE_def dflt_def js_def)


section \<open>Properties of the fragment extractor\<close>

text \<open>
  Claim C1, as the code has it. Each expression is greedy: the fragment of a tag
  is the text between the first occurrence of its opening tag and the last
  occurrence of its closing tag after it. So for a text \<open>a @ <TAG> @ inner @
  </TAG> @ z\<close> in which the opening tag does not begin before the end of \<open>a\<close> and
  the closing tag does not occur again after the one shown, the fragment is
  exactly \<open>inner\<close>, with no tag text around it; this for each of the four tags.
\<close>

theorem extractTextToInject_first_open_last_close:
  assumes "fs path = Some text"
    and "text = a1 @ js ''<head-start>'' @ hs @ js ''</head-start>'' @ z1"
    and "\<not> sublist (js ''<head-start>'') (a1 @ butlast (js ''<head-start>''))"
    and "\<not> sublist (js ''</head-start>'') (tl (js ''</head-start>'') @ z1)"
    and "text = a2 @ js ''<head-end>'' @ he @ js ''</head-end>'' @ z2"
    and "\<not> sublist (js ''<head-end>'') (a2 @ butlast (js ''<head-end>''))"
    and "\<not> sublist (js ''</head-end>'') (tl (js ''</head-end>'') @ z2)"
    and "text = a3 @ js ''<body-start>'' @ bs @ js ''</body-start>'' @ z3"
    and "\<not> sublist (js ''<body-start>'') (a3 @ butlast (js ''<body-start>''))"
    and "\<not> sublist (js ''</body-start>'') (tl (js ''</body-start>'') @ z3)"
    and "text = a4 @ js ''<body-end>'' @ be @ js ''</body-end>'' @ z4"
    and "\<not> sublist (js ''<body-end>'') (a4 @ butlast (js ''<body-end>''))"
    and "\<not> sublist (js ''</body-end>'') (tl (js ''</body-end>'') @ z4)"
  shows "extractTextToInject fs path =
           Inr \<lparr>headStart = hs, headEnd = he, bodyStart = bs, bodyEnd = be\<rparr>"
proof -
  have ne: "text \<noteq> []" using assms(2) by (simp add: js_def)
  have e1: "exec (tagRx ''head-start'') [] text =
      Some \<lparr>before = a1, matched = js ''<head-start>'' @ hs @ js ''</head-start>'',
            groups = [hs], after = z1\<rparr>"
    unfolding assms(2) using exec_tagRx[of "''head-start''" a1 z1 hs] assms(3,4) by simp
  have e2: "exec (tagRx ''head-end'') [] text =
      Some \<lparr>before = a2, matched = js ''<head-end>'' @ he @ js ''</head-end>'',
            groups = [he], after = z2\<rparr>"
    unfolding assms(5) using exec_tagRx[of "''head-end''" a2 z2 he] assms(6,7) by simp
  have e3: "exec (tagRx ''body-start'') [] text =
      Some \<lparr>before = a3, matched = js ''<body-start>'' @ bs @ js ''</body-start>'',
            groups = [bs], after = z3\<rparr>"
    unfolding assms(8) using exec_tagRx[of "''body-start''" a3 z3 bs] assms(9,10) by simp
  have e4: "exec (tagRx ''body-end'') [] text =
      Some \<lparr>before = a4, matched = js ''<body-end>'' @ be @ js ''</body-end>'',
            groups = [be], after = z4\<rparr>"
    unfolding assms(11) using exec_tagRx[of "''body-end''" a4 z4 be] assms(12,13) by simp
  have "extractText path text =
          Inr \<lparr>headStart = hs, headEnd = he, bodyStart = bs, bodyEnd = be\<rparr>"
    unfolding extractText_def using ne by (simp add: e1 e2 e3 e4 group1_def)
  then show ?thesis
    using assms(1) by (simp add: extractTextToInject_def readFileSync_def)
qed

text \<open>
  The theorem at a file with the tags in another order and text around them.
\<close>

theorem extractTextToInject_first_open_last_close_witness:
  "extractTextToInject
     [js ''t.inject'' \<mapsto>
        js ''x<body-end>D</body-end><head-end>B</head-end>;<head-start>A</head-start><body-start>C</body-start>y'']
     (js ''t.inject'')
   = Inr \<lparr>headStart = js ''A'', headEnd = js ''B'', bodyStart = js ''C'', bodyEnd = js ''D''\<rparr>"
  using extractTextToInject_first_open_last_close
    [of "[js ''t.inject'' \<mapsto>
           js ''x<body-end>D</body-end><head-end>B</head-end>;<head-start>A</head-start><body-start>C</body-start>y'']"
        "js ''t.inject''"
        "js ''x<body-end>D</body-end><head-end>B</head-end>;<head-start>A</head-start><body-start>C</body-start>y''"
        "js ''x<body-end>D</body-end><head-end>B</head-end>;''" "js ''A''"
        "js ''<body-start>C</body-start>y''"
        "js ''x<body-end>D</body-end>''" "js ''B''"
        "js '';<head-start>A</head-start><body-start>C</body-start>y''"
        "js ''x<body-end>D</body-end><head-end>B</head-end>;<head-start>A</head-start>''" "js ''C''"
        "js ''y''"
        "js ''x''" "js ''D''"
        "js ''<head-end>B</head-end>;<head-start>A</head-start><body-start>C</body-start>y''"]
  by (simp add: js_def sublist_code(3))

text \<open>
  A file in which the pair \<open>head-start\<close> is written twice: the fragment is not
  the inner text \<open>A\<close> of the first region, it runs on to the last closing tag.
\<close>

theorem extractTextToInject_duplicated_pair:
  "extractTextToInject
     [js ''t.inject'' \<mapsto>
        js ''<head-start>A</head-start><head-start>X</head-start><head-end>B</head-end><body-start>C</body-start><body-end>D</body-end>'']
     (js ''t.inject'')
   = Inr \<lparr>headStart = js ''A</head-start><head-start>X'', headEnd = js ''B'',
          bodyStart = js ''C'', bodyEnd = js ''D''\<rparr>
   \<and> js ''A</head-start><head-start>X'' \<noteq> js ''A''"
  by (simp add: extractTextToInject_def readFileSync_def extractText_def tagRx_def lit_def
        group1_def js_def)

text \<open>
  Claim C4. For every text read from the injection file (a text that was read
  is not empty, the empty one being the case of claim C5) from which the opening
  or the closing tag of one of the four names is absent, extraction throws the
  error whose message is the bad-file message, the path of the file is part of
  that message, and no fragment is returned.
\<close>

theorem extractTextToInject_missing_tag:
  assumes "fs path = Some text" and "text \<noteq> []"
    and "t \<in> {''head-start'', ''head-end'', ''body-start'', ''body-end''}"
    and "\<not> sublist (js (''<'' @ t @ ''>'')) text \<or> \<not> sublist (js (''</'' @ t @ ''>'')) text"
  shows "extractTextToInject fs path = Inl (Error (badFileMessage path))
         \<and> sublist path (badFileMessage path)"
proof -
  have none: "exec (tagRx t) [] text = None"
    using exec_tagRx_absent[OF assms(4)] .
  have "extractText path text = Inl (Error (badFileMessage path))"
    using assms(2,3) none unfolding extractText_def
    by (auto split: option.splits)
  then show ?thesis
    using assms(1) by (simp add: extractTextToInject_def readFileSync_def sublist_badFileMessage)
qed

theorem extractTextToInject_missing_tag_witness:
  "extractTextToInject
     [js ''index.html.inject'' \<mapsto> js ''<head-start>A</head-start><head-end>B'']
     (js ''index.html.inject'')
     = Inl (Error (badFileMessage (js ''index.html.inject'')))
   \<and> sublist (js ''index.html.inject'') (badFileMessage (js ''index.html.inject''))"
  using extractTextToInject_missing_tag
    [of "[js ''index.html.inject'' \<mapsto> js ''<head-start>A</head-start><head-end>B'']"
        "js ''index.html.inject''" "js ''<head-start>A</head-start><head-end>B''" "''head-end''"]
  by (simp add: js_def sublist_code(3))


text \<open>
  Claim C5, as the code has it. For every path whose file is empty, extraction
  fails with the not-found error of the code. The call of \<open>injectIndex\<close> itself
  succeeds and returns the pipeline still to be built; the failure is that of
  building this pipeline, which ends with the error and yields no
  transformation, so no document is processed.
\<close>

theorem extractTextToInject_empty_file:
  assumes "fs path = Some []"
  shows "extractTextToInject fs path = Inl (Error (notFoundMessage path))
         \<and> (\<exists>pipe. injectIndex path (Some opts) = Inr pipe
               \<and> pipe fs = Inl (Error (notFoundMessage path)))"
  using assms
  by (simp add: extractTextToInject_def readFileSync_def extractText_def injectIndex_def
        injectDeviceReadyDetection_def)

theorem extractTextToInject_empty_file_witness:
  "extractTextToInject [js ''t.inject'' \<mapsto> []] (js ''t.inject'')
     = Inl (Error (notFoundMessage (js ''t.inject'')))
   \<and> (\<exists>pipe. injectIndex (js ''t.inject'')
         (Some \<lparr>connectSrc = None, defaultSrc = None, frameSrc = None, source = None\<rparr>) = Inr pipe
       \<and> pipe [js ''t.inject'' \<mapsto> []] = Inl (Error (notFoundMessage (js ''t.inject''))))"
  using extractTextToInject_empty_file
    [of "[js ''t.inject'' \<mapsto> []]" "js ''t.inject''"
        "\<lparr>connectSrc = None, defaultSrc = None, frameSrc = None, source = None\<rparr>"]
  by simp

text \<open>
  With an empty injection file the call of \<open>injectIndex\<close> does not fail: it
  returns a pipeline, and the error comes when that pipeline is built. With no
  file at the path the error is that of the read, not the not-found error of
  the code.
\<close>

theorem injectIndex_call_succeeds:
  "\<not> isl (injectIndex (js ''t.inject'')
       (Some \<lparr>connectSrc = None, defaultSrc = None, frameSrc = None, source = None\<rparr>))
   \<and> extractTextToInject Map.empty (js ''t.inject'') = Inl (ENOENT (js ''t.inject''))
   \<and> extractTextToInject Map.empty (js ''t.inject'')
       \<noteq> Inl (Error (notFoundMessage (js ''t.inject'')))"
  by (simp add: injectIndex_def extractTextToInject_def readFileSync_def)


section \<open>Properties of the substitution steps\<close>




text \<open>
  Claim C7, at a document with a tag after the base tag on the same line. The
  expression is to match one base tag, which the step replaces by the empty
  text, but its \<^verbatim>\<open>.*\<close> is greedy: the match runs on to the last double quote
  followed by \<open>>\<close> on the line, and the tag after the base tag is removed with
  it.
\<close>

theorem stripBase_greedy:
  \<open>stripBase (js ''<base href="foo/"><meta charset="utf-8">'') = []
   \<and> stripBase (js ''<base href="foo/"><meta charset="utf-8">'') \<noteq> js ''<meta charset="utf-8">''\<close>
  by (simp add: stripBase_def replace_regexp_def baseRx_def lit_def js_def LineTerminator_def)

text \<open>
  Claim C8, as the code has it. For the document
  \<^verbatim>\<open><html><head></head><body></body></html>\<close> and the fragments \<open>A\<close>, \<open>B\<close>, \<open>C\<close>, \<open>D\<close> the
  four steps give \<^verbatim>\<open><html><head>AB</head><body>CD</body></html>\<close>: each fragment is
  put once, right after or right before its tag, with nothing between two
  fragments.
\<close>

theorem injectSteps_example:
  "injectSteps \<lparr>headStart = js ''A'', headEnd = js ''B'', bodyStart = js ''C'', bodyEnd = js ''D''\<rparr>
     (js ''<html><head></head><body></body></html>'')
   = js ''<html><head>AB</head><body>CD</body></html>''"
  by (simp add: injectSteps_def injectHeadStart_def injectHeadEnd_def injectBodyStart_def
        injectBodyEnd_def replace_regexp_def lit_def js_def highSurrogate_def lowSurrogate_def)

text \<open>The output is not the text with a space between the fragments.\<close>

theorem injectSteps_no_space:
  "injectSteps \<lparr>headStart = js ''A'', headEnd = js ''B'', bodyStart = js ''C'', bodyEnd = js ''D''\<rparr>
     (js ''<html><head></head><body></body></html>'')
   \<noteq> js ''<html><head>A B</head><body>C D</body></html>''"
  by (simp add: injectSteps_def injectHeadStart_def injectHeadEnd_def injectBodyStart_def
        injectBodyEnd_def replace_regexp_def lit_def js_def highSurrogate_def lowSurrogate_def)

text \<open>
  Claim C10, as the code has it. Only the exact text \<^verbatim>\<open><head>\<close> is the anchor of
  the \<open>headStart\<close> step: for every document in which it does not occur, as when
  each head tag carries attributes, the step leaves the text of the document
  unchanged, whatever the fragment. Likewise for \<^verbatim>\<open></head>\<close>, \<^verbatim>\<open><body>\<close> and
  \<^verbatim>\<open></body>\<close> and the other three steps. The text is one a buffer holds.
\<close>

theorem inject_steps_anchor_absent:
  "(\<not> sublist (js ''<head>'') doc \<and> wellFormed doc \<longrightarrow> injectHeadStart f doc = doc)
   \<and> (\<not> sublist (js ''</head>'') doc \<and> wellFormed doc \<longrightarrow> injectHeadEnd f doc = doc)
   \<and> (\<not> sublist (js ''<body>'') doc \<and> wellFormed doc \<longrightarrow> injectBodyStart f doc = doc)
   \<and> (\<not> sublist (js ''</body>'') doc \<and> wellFormed doc \<longrightarrow> injectBodyEnd f doc = doc)"
  unfolding injectHeadStart_def injectHeadEnd_def injectBodyStart_def injectBodyEnd_def
  by (simp add: replace_regexp_lit_absent toWellFormed_wellFormed)

theorem inject_steps_anchor_absent_witness:
  \<open>injectHeadStart \<lparr>headStart = js ''A'', headEnd = js ''B'', bodyStart = js ''C'', bodyEnd = js ''D''\<rparr>
      (js ''<html><head lang="en"></head ><body class="x"></body ></html>'')
     = js ''<html><head lang="en"></head ><body class="x"></body ></html>''
   \<and> injectHeadEnd \<lparr>headStart = js ''A'', headEnd = js ''B'', bodyStart = js ''C'', bodyEnd = js ''D''\<rparr>
      (js ''<html><head lang="en"></head ><body class="x"></body ></html>'')
     = js ''<html><head lang="en"></head ><body class="x"></body ></html>''
   \<and> injectBodyStart \<lparr>headStart = js ''A'', headEnd = js ''B'', bodyStart = js ''C'', bodyEnd = js ''D''\<rparr>
      (js ''<html><head lang="en"></head ><body class="x"></body ></html>'')
     = js ''<html><head lang="en"></head ><body class="x"></body ></html>''
   \<and> injectBodyEnd \<lparr>headStart = js ''A'', headEnd = js ''B'', bodyStart = js ''C'', bodyEnd = js ''D''\<rparr>
      (js ''<html><head lang="en"></head ><body class="x"></body ></html>'')
     = js ''<html><head lang="en"></head ><body class="x"></body ></html>''\<close>
  using inject_steps_anchor_absent
    [of \<open>js ''<html><head lang="en"></head ><body class="x"></body ></html>''\<close>
        "\<lparr>headStart = js ''A'', headEnd = js ''B'', bodyStart = js ''C'', bodyEnd = js ''D''\<rparr>"]
  by (simp add: js_def sublist_code(3) highSurrogate_def lowSurrogate_def)

text \<open>
  A document whose first head tag carries an attribute and which has the text
  \<^verbatim>\<open><head>\<close> further on: the step puts the fragment there.
\<close>

theorem injectHeadStart_later_anchor:
  \<open>injectHeadStart \<lparr>headStart = js ''A'', headEnd = js ''B'', bodyStart = js ''C'', bodyEnd = js ''D''\<rparr>
      (js ''<head lang="en"><head>'') = js ''<head lang="en"><head>A''
   \<and> js ''<head lang="en"><head>A'' \<noteq> js ''<head lang="en"><head>''\<close>
  by (simp add: injectHeadStart_def replace_regexp_def lit_def js_def
        highSurrogate_def lowSurrogate_def)


section \<open>The argument of the entry point\<close>

lemma injectIndex_omitted_fields:
  "injectIndex path (Some \<lparr>connectSrc = None, defaultSrc = None, frameSrc = None, source = None\<rparr>)
     = injectIndex path (Some \<lparr>connectSrc = Some [], defaultSrc = Some [], frameSrc = Some [],
                               source = Some (js ''index.html'')\<rparr>)"
  by (simp add: injectIndex_def createMetaCsp_def dflt_def DEFAULT_SOURCE_def cong: sum.case_cong)

text \<open>
  Claim C9, at the call with no argument. The default value of the parameter is
  the identifier \<^verbatim>\<open>options\<close>, declared nowhere: the call throws a
  \<^verbatim>\<open>ReferenceError\<close> and returns no pipeline.
\<close>

theorem injectIndex_no_argument:
  "injectIndex path None = Inl (ReferenceError (js ''options''))"
  by (simp add: injectIndex_def)


end
